theory Spec2Isabelle
  imports Complex_Main "HOL-Library.Sublist"
begin

section \<open>Data model\<close>

text \<open>
  The similarity engine of the link suggestion tool lives in two classes:
  \<^verbatim>\<open>EmbeddingsManager\<close> (src/utils/embeddings.py), which owns the Chroma vector store, and
  \<^verbatim>\<open>SimilaritySearcher\<close> (src/utils/similarity.py), which wraps it for the application.

  Python \<^verbatim>\<open>str\<close> is modelled as \<^typ>\<open>string\<close> (one HOL character for one Python
  character), Python \<^verbatim>\<open>int\<close> as \<^typ>\<open>int\<close>, and the scores, which are Python floats, as
  exact reals: the rounding of the floating point subtraction is not modelled.
  Console output (\<^verbatim>\<open>print\<close>) is left out.
\<close>

text \<open>The metadata dictionary of a stored document: keys \<^verbatim>\<open>url\<close>, \<^verbatim>\<open>title\<close>, \<^verbatim>\<open>source\<close>.\<close>

type_synonym metadata = "string \<rightharpoonup> string"

text \<open>A LangChain \<^verbatim>\<open>Document\<close>.\<close>

record document =
  page_content :: string
  metadata :: metadata

text \<open>
  A Chroma collection, as the list of its records in the order in which
  \<^verbatim>\<open>vectorstore.get()\<close> lists them. Duplicated urls are possible.
\<close>

type_synonym chroma = "document list"

text \<open>
  The state of an \<^verbatim>\<open>EmbeddingsManager\<close>: \<^verbatim>\<open>self.vectorstore\<close> is \<^verbatim>\<open>None\<close> until a store is
  built or loaded.
\<close>

record embeddings_manager =
  vectorstore :: "chroma option"

text \<open>The dictionary returned by \<^verbatim>\<open>vectorstore.get()\<close>: two parallel lists.\<close>

record all_docs =
  metadatas :: "metadata list"
  documents :: "string list"

text \<open>Python exceptions, with their messages.\<close>

datatype py_exception =
    ValueError string
  | AttributeError string
  | OtherException string

text \<open>
  What the engine uses of the LangChain Chroma class, whose code is not part of the
  repository. Both are parameters of the model:
  \<^item> \<open>chroma_bool\<close>: the truth value of a Chroma object (Python's \<^verbatim>\<open>bool(vectorstore)\<close>,
    which the class decides);
  \<^item> \<open>similarity_search_with_score\<close>: the nearest-neighbour query, from the collection,
    the query text and the number of neighbours asked for to a list of documents with
    their raw distances, or an exception (the query text is embedded by a remote
    provider, which can fail).
\<close>

record library =
  chroma_bool :: "chroma \<Rightarrow> bool"
  similarity_search_with_score ::
    "chroma \<Rightarrow> string \<Rightarrow> int \<Rightarrow> py_exception + (document \<times> real) list"

text \<open>
  An entry of a result list: the dictionary with keys \<^verbatim>\<open>url\<close>, \<^verbatim>\<open>title\<close>, \<^verbatim>\<open>content\<close>,
  \<^verbatim>\<open>similarity\<close> built by \<^verbatim>\<open>search_similar\<close>, to which \<^verbatim>\<open>find_similar_posts\<close> adds the key
  \<^verbatim>\<open>rank\<close> (\<open>None\<close>: key absent). \<^verbatim>\<open>metadata.get\<close> returns \<^verbatim>\<open>None\<close> for a missing key.
\<close>

record candidate =
  url :: "string option"
  title :: "string option"
  content :: string
  similarity :: real
  rank :: "int option"

section \<open>Configuration (src/config.py)\<close>

definition TOP_K_RESULTS :: int where
  "TOP_K_RESULTS = 10"

definition FINAL_SUGGESTIONS :: int where
  "FINAL_SUGGESTIONS = 5"

definition MIN_SIMILARITY_THRESHOLD :: real where
  "MIN_SIMILARITY_THRESHOLD = 0.5"

section \<open>Python built-ins\<close>

text \<open>The slice \<^verbatim>\<open>xs[:k]\<close>: a negative \<open>k\<close> counts from the end.\<close>

definition py_slice_to :: "int \<Rightarrow> 'a list \<Rightarrow> 'a list" where
  "py_slice_to k xs =
     (if 0 \<le> k then take (nat k) xs else take (length xs - nat (- k)) xs)"

text \<open>\<^verbatim>\<open>enumerate(xs, start)\<close>.\<close>

fun py_enumerate :: "int \<Rightarrow> 'a list \<Rightarrow> (int \<times> 'a) list" where
  "py_enumerate i [] = []"
| "py_enumerate i (x # xs) = (i, x) # py_enumerate (i + 1) xs"

text \<open>
  \<^verbatim>\<open>xs.sort(key=f, reverse=True)\<close>: Python's sort is stable, and with \<^verbatim>\<open>reverse=True\<close> it
  sorts as if every comparison were reversed, elements with equal keys keeping their
  original order. On numeric keys that is the stable ascending sort by the negated key.
\<close>

definition py_sort_reverse :: "('a \<Rightarrow> real) \<Rightarrow> 'a list \<Rightarrow> 'a list" where
  "py_sort_reverse f xs = sort_key (\<lambda>x. - f x) xs"

section \<open>EmbeddingsManager.search_similar (src/utils/embeddings.py)\<close>

text \<open>\<^verbatim>\<open>get()\<close> on a Chroma object: the metadata and the texts of all records.\<close>

definition chroma_get :: "chroma \<Rightarrow> all_docs" where
  "chroma_get c = \<lparr>metadatas = map metadata c, documents = map page_content c\<rparr>"

text \<open>\<^verbatim>\<open>self.vectorstore.get()\<close>: on \<^verbatim>\<open>None\<close> the attribute access raises.\<close>

definition vectorstore_get :: "embeddings_manager \<Rightarrow> py_exception + all_docs" where
  "vectorstore_get m =
     (case vectorstore m of
        None \<Rightarrow> Inl (AttributeError ''NoneType object has no attribute get'')
      | Some c \<Rightarrow> Inr (chroma_get c))"

text \<open>
  The scans of the code walk \<^verbatim>\<open>all_docs['metadatas']\<close> by index and read
  \<^verbatim>\<open>all_docs['documents'][i]\<close>: the two lists taken in parallel.
\<close>

definition paired_docs :: "all_docs \<Rightarrow> (metadata \<times> string) list" where
  "paired_docs all = zip (metadatas all) (documents all)"

text \<open>
  Lines 232-236: the scan for the query post, over the two parallel lists; the first
  record whose \<^verbatim>\<open>url\<close> is the query url gives the text, \<open>None\<close> when no record matches.
\<close>

fun find_query_doc :: "string \<Rightarrow> (metadata \<times> string) list \<Rightarrow> string option" where
  "find_query_doc query_url [] = None"
| "find_query_doc query_url ((md, doc) # rest) =
     (if md ''url'' = Some query_url then Some doc else find_query_doc query_url rest)"

text \<open>Line 257: the raw cosine distance is mapped to a similarity.\<close>

definition similarity_of_score :: "real \<Rightarrow> real" where
  "similarity_of_score score = 1 - (score / 2)"

text \<open>Lines 261-266: the result dictionary of one retrieved document.\<close>

definition make_candidate :: "document \<Rightarrow> real \<Rightarrow> candidate" where
  "make_candidate doc sim =
     \<lparr>url = metadata doc ''url'', title = metadata doc ''title'',
      content = page_content doc, similarity = sim, rank = None\<rparr>"

text \<open>
  Lines 248-266: the loop over the retrieved pairs, in retrieval order. It skips every
  pair whose url is the query url, and appends the others whose similarity reaches
  the threshold.
\<close>

fun collect_similar :: "string \<Rightarrow> (document \<times> real) list \<Rightarrow> candidate list" where
  "collect_similar query_url [] = []"
| "collect_similar query_url ((doc, score) # results) =
     (if metadata doc ''url'' = Some query_url then collect_similar query_url results
      else if similarity_of_score score \<ge> MIN_SIMILARITY_THRESHOLD
        then make_candidate doc (similarity_of_score score) # collect_similar query_url results
        else collect_similar query_url results)"

text \<open>
  \<^verbatim>\<open>not self.vectorstore\<close> holds for \<^verbatim>\<open>None\<close>, and for a Chroma object when its class says
  so. \<^verbatim>\<open>not query_doc\<close> holds for \<^verbatim>\<open>None\<close> and for the empty string.
\<close>

definition search_similar ::
  "library \<Rightarrow> embeddings_manager \<Rightarrow> string \<Rightarrow> int option \<Rightarrow> py_exception + candidate list" where
  "search_similar lib m query_url k_opt =
     (let k = (case k_opt of None \<Rightarrow> TOP_K_RESULTS | Some k \<Rightarrow> k) in
      case vectorstore m of
        None \<Rightarrow> Inl (ValueError ''Vectorstore not initialized. Load or create one first.'')
      | Some store \<Rightarrow>
          if \<not> chroma_bool lib store
          then Inl (ValueError ''Vectorstore not initialized. Load or create one first.'')
          else
            (let all = chroma_get store in
             case find_query_doc query_url (paired_docs all) of
               None \<Rightarrow> Inl (ValueError (''URL not found in database: '' @ query_url))
             | Some query_doc \<Rightarrow>
                 if query_doc = []
                 then Inl (ValueError (''URL not found in database: '' @ query_url))
                 else
                   (case similarity_search_with_score lib store query_doc (k + 1) of
                      Inl e \<Rightarrow> Inl e
                    | Inr results \<Rightarrow>
                        Inr (py_slice_to k
                              (py_sort_reverse similarity (collect_similar query_url results))))))"

section \<open>SimilaritySearcher (src/utils/similarity.py)\<close>

text \<open>Lines 56-57: \<^verbatim>\<open>result['rank'] = i\<close> for \<^verbatim>\<open>i, result in enumerate(results, 1)\<close>.\<close>

definition add_ranking :: "candidate list \<Rightarrow> candidate list" where
  "add_ranking results = map (\<lambda>(i, result). result\<lparr>rank := Some i\<rparr>) (py_enumerate 1 results)"

text \<open>Lines 36-37: \<^verbatim>\<open>top_k\<close> defaults to \<^verbatim>\<open>Config.FINAL_SUGGESTIONS\<close>.\<close>

definition top_k_or_default :: "int option \<Rightarrow> int" where
  "top_k_or_default top_k_opt = (case top_k_opt of None \<Rightarrow> FINAL_SUGGESTIONS | Some k \<Rightarrow> k)"

text \<open>
  Both \<^verbatim>\<open>except\<close> clauses return the empty list, whatever the exception, and so does the
  check \<^verbatim>\<open>if not results\<close>.
\<close>

definition find_similar_posts ::
  "library \<Rightarrow> embeddings_manager \<Rightarrow> string \<Rightarrow> int option \<Rightarrow> candidate list" where
  "find_similar_posts lib m query_url top_k_opt =
     (let top_k = top_k_or_default top_k_opt in
      case search_similar lib m query_url (Some top_k) of
        Inl (ValueError e) \<Rightarrow> []
      | Inl e \<Rightarrow> []
      | Inr results \<Rightarrow> if results = [] then [] else add_ranking results)"

text \<open>The scan of \<^verbatim>\<open>get_post_context\<close>, lines 84-90.\<close>

fun scan_context :: "string \<Rightarrow> int \<Rightarrow> (metadata \<times> string) list \<Rightarrow> string option" where
  "scan_context u max_chars [] = None"
| "scan_context u max_chars ((md, txt) # rest) =
     (if md ''url'' = Some u
      then Some (if int (length txt) > max_chars
                 then py_slice_to max_chars txt @ ''...'' else txt)
      else scan_context u max_chars rest)"

definition get_post_context :: "embeddings_manager \<Rightarrow> string \<Rightarrow> int \<Rightarrow> string option" where
  "get_post_context m u max_chars =
     (case vectorstore_get m of
        Inl e \<Rightarrow> None
      | Inr all \<Rightarrow> scan_context u max_chars (paired_docs all))"

text \<open>The scan of \<^verbatim>\<open>validate_url\<close>, lines 110-114.\<close>

fun scan_url :: "string \<Rightarrow> metadata list \<Rightarrow> bool" where
  "scan_url u [] = False"
| "scan_url u (md # rest) = (if md ''url'' = Some u then True else scan_url u rest)"

definition validate_url :: "embeddings_manager \<Rightarrow> string \<Rightarrow> bool" where
  "validate_url m u =
     (case vectorstore_get m of
        Inl e \<Rightarrow> False
      | Inr all \<Rightarrow> scan_url u (metadatas all))"

text \<open>
  \<^verbatim>\<open>get_all_urls\<close>: the second comprehension keeps the truthy urls, dropping \<^verbatim>\<open>None\<close> and
  the empty string.
\<close>

definition get_all_urls :: "embeddings_manager \<Rightarrow> string list" where
  "get_all_urls m =
     (case vectorstore_get m of
        Inl e \<Rightarrow> []
      | Inr all \<Rightarrow>
          (let urls = map (\<lambda>md. md ''url'') (metadatas all)
           in map the (filter (\<lambda>u. u \<noteq> None \<and> u \<noteq> Some []) urls)))"

subsection \<open>A session with the searcher\<close>

text \<open>
  The application holds one searcher and calls its methods one after the other. None of
  the four methods assigns to \<^verbatim>\<open>self.embeddings_manager\<close> or to its \<^verbatim>\<open>vectorstore\<close>, and
  none calls a writing method of the store, so each call hands the manager on as it
  found it.

  What the library answers is not fixed for a session: every call of
  \<^verbatim>\<open>similarity_search_with_score\<close> sends the query text to the remote embedding provider
  again, which can answer or fail differently from one call to the next. A step of a
  session is therefore a call together with the library as it behaves during that call.
\<close>

datatype call =
    FindSimilarPosts string "int option"
  | GetPostContext string int
  | ValidateUrl string
  | GetAllUrls

datatype reply =
    Posts "candidate list"
  | Context "string option"
  | Valid bool
  | Urls "string list"

fun exec :: "library \<Rightarrow> embeddings_manager \<Rightarrow> call \<Rightarrow> reply \<times> embeddings_manager" where
  "exec lib m (FindSimilarPosts u k) = (Posts (find_similar_posts lib m u k), m)"
| "exec lib m (GetPostContext u n) = (Context (get_post_context m u n), m)"
| "exec lib m (ValidateUrl u) = (Valid (validate_url m u), m)"
| "exec lib m GetAllUrls = (Urls (get_all_urls m), m)"

fun run :: "embeddings_manager \<Rightarrow> (library \<times> call) list \<Rightarrow> reply list \<times> embeddings_manager" where
  "run m [] = ([], m)"
| "run m ((lib, c) # steps) =
     (let (r, m') = exec lib m c; (rs, m'') = run m' steps in (r # rs, m''))"

text \<open>
  Two behaviours of the library give a query the same answer when the store object has
  the same truth value under both and, if the url resolves to a text, the
  nearest-neighbour query for that text and \<open>k + 1\<close> neighbours answers alike.
\<close>

definition same_answer ::
  "library \<Rightarrow> library \<Rightarrow> embeddings_manager \<Rightarrow> string \<Rightarrow> int option \<Rightarrow> bool" where
  "same_answer lib lib' m query_url top_k_opt =
     (case vectorstore m of
        None \<Rightarrow> True
      | Some store \<Rightarrow>
          chroma_bool lib store = chroma_bool lib' store \<and>
          (case find_query_doc query_url (paired_docs (chroma_get store)) of
             None \<Rightarrow> True
           | Some t \<Rightarrow>
               similarity_search_with_score lib store t (top_k_or_default top_k_opt + 1)
                 = similarity_search_with_score lib' store t (top_k_or_default top_k_opt + 1)))"

section \<open>The contract of the nearest-neighbour query\<close>


section \<open>A store of three posts\<close>

text \<open>
  The scenario of the specification: posts A, B and C with urls a, b and c, whose cosine
  distances from A are 0.2, 0.8 and 1.4 in this order. The query answers with the
  nearest \<open>n\<close> of them.
\<close>

definition doc_a :: document where
  "doc_a = \<lparr>page_content = ''text of A'',
            metadata = [''url'' \<mapsto> ''a'', ''title'' \<mapsto> ''A'', ''source'' \<mapsto> ''blog_post'']\<rparr>"

definition doc_b :: document where
  "doc_b = \<lparr>page_content = ''text of B'',
            metadata = [''url'' \<mapsto> ''b'', ''title'' \<mapsto> ''B'', ''source'' \<mapsto> ''blog_post'']\<rparr>"

definition doc_c :: document where
  "doc_c = \<lparr>page_content = ''text of C'',
            metadata = [''url'' \<mapsto> ''c'', ''title'' \<mapsto> ''C'', ''source'' \<mapsto> ''blog_post'']\<rparr>"

definition scenario_manager :: embeddings_manager where
  "scenario_manager = \<lparr>vectorstore = Some [doc_a, doc_b, doc_c]\<rparr>"

definition scenario_library :: library where
  "scenario_library =
     \<lparr>chroma_bool = (\<lambda>store. store \<noteq> []),
      similarity_search_with_score =
        (\<lambda>store t n. Inr (take (nat n) [(doc_a, 0.2), (doc_b, 0.8), (doc_c, 1.4)]))\<rparr>"

text \<open>
  A second query on the same store, for a store where B and C are copies of A: all three are
  at distance 0, and B is listed before A.
\<close>

definition tied_library :: library where
  "tied_library =
     \<lparr>chroma_bool = (\<lambda>store. store \<noteq> []),
      similarity_search_with_score =
        (\<lambda>store t n. Inr (take (nat n) [(doc_b, 0), (doc_a, 0), (doc_c, 0)]))\<rparr>"

text \<open>A post whose stored text is the empty string.\<close>

definition doc_empty :: document where
  "doc_empty = \<lparr>page_content = [],
                metadata = [''url'' \<mapsto> ''e'', ''title'' \<mapsto> ''E'', ''source'' \<mapsto> ''blog_post'']\<rparr>"

text \<open>
  A query on the same store that puts B exactly on the threshold and C just below it.
\<close>

definition boundary_library :: library where
  "boundary_library =
     \<lparr>chroma_bool = (\<lambda>store. store \<noteq> []),
      similarity_search_with_score =
        (\<lambda>store t n. Inr (take (nat n) [(doc_a, 0), (doc_b, 1), (doc_c, 1.001)]))\<rparr>"


text \<open>The library during a call in which the embedding provider does not answer.\<close>

definition failing_library :: library where
  "failing_library =
     \<lparr>chroma_bool = (\<lambda>store. store \<noteq> []),
      similarity_search_with_score =
        (\<lambda>store t n. Inl (OtherException ''embedding provider unavailable''))\<rparr>"

section \<open>Auxiliary lemmas\<close>

subsection \<open>Slices, sorting and enumeration\<close>

lemma set_py_slice_to: "set (py_slice_to k xs) \<subseteq> set xs"
  by (auto simp: py_slice_to_def dest: in_set_takeD)



lemma py_slice_to_nonneg: "0 \<le> k \<Longrightarrow> py_slice_to k xs = take (nat k) xs"
  by (simp add: py_slice_to_def)

lemma py_slice_to_all: "int (length xs) \<le> k \<Longrightarrow> py_slice_to k xs = xs"
  by (simp add: py_slice_to_def)

lemma set_py_sort_reverse: "set (py_sort_reverse f xs) = set xs"
  by (simp add: py_sort_reverse_def)

lemma length_py_sort_reverse: "length (py_sort_reverse f xs) = length xs"
  by (simp add: py_sort_reverse_def)





lemma map_snd_py_enumerate: "map snd (py_enumerate i xs) = xs"
  by (induction xs arbitrary: i) auto


subsection \<open>The ranking loop\<close>


lemma add_ranking_unrank: "map (\<lambda>c. c\<lparr>rank := None\<rparr>) (add_ranking xs) = map (\<lambda>c. c\<lparr>rank := None\<rparr>) xs"
proof -
  have "map (\<lambda>c. c\<lparr>rank := None\<rparr>) (add_ranking xs)
        = map ((\<lambda>c. c\<lparr>rank := None\<rparr>) \<circ> snd) (py_enumerate 1 xs)"
    by (simp add: add_ranking_def split_def o_def)
  also have "\<dots> = map (\<lambda>c. c\<lparr>rank := None\<rparr>) (map snd (py_enumerate 1 xs))"
    by simp
  finally show ?thesis
    by (simp add: map_snd_py_enumerate)
qed

lemma add_ranking_similarity: "map similarity (add_ranking xs) = map similarity xs"
proof -
  have "map similarity (add_ranking xs) = map (similarity \<circ> snd) (py_enumerate 1 xs)"
    by (simp add: add_ranking_def split_def o_def)
  also have "\<dots> = map similarity (map snd (py_enumerate 1 xs))"
    by simp
  finally show ?thesis
    by (simp add: map_snd_py_enumerate)
qed

lemma add_ranking_url: "map url (add_ranking xs) = map url xs"
proof -
  have "map url (add_ranking xs) = map (url \<circ> snd) (py_enumerate 1 xs)"
    by (simp add: add_ranking_def split_def o_def)
  also have "\<dots> = map url (map snd (py_enumerate 1 xs))"
    by simp
  finally show ?thesis
    by (simp add: map_snd_py_enumerate)
qed


lemma list_all_similarity_add_ranking:
  "list_all (\<lambda>c. P (similarity c)) (add_ranking xs) = list_all (\<lambda>c. P (similarity c)) xs"
proof -
  have h: "list_all (\<lambda>c. P (similarity c)) ys = list_all P (map similarity ys)" for ys
    by (simp add: list_all_iff)
  show ?thesis unfolding h add_ranking_similarity ..
qed

subsection \<open>The filtering loop\<close>

lemma collect_similar_append:
  "collect_similar q (xs @ ys) = collect_similar q xs @ collect_similar q ys"
  by (induction xs) auto

lemma collect_similar_eq_map_filter:
  "collect_similar q rs =
     map (\<lambda>(doc, score). make_candidate doc (similarity_of_score score))
       (filter (\<lambda>(doc, score). metadata doc ''url'' \<noteq> Some q
                  \<and> MIN_SIMILARITY_THRESHOLD \<le> similarity_of_score score) rs)"
proof (induction rs)
  case Nil
  show ?case by simp
next
  case (Cons r rs)
  obtain doc score where r: "r = (doc, score)" by (cases r)
  show ?case unfolding r using Cons.IH by simp
qed

lemma collect_similar_no_query: "Some q \<notin> set (map url (collect_similar q rs))"
  unfolding collect_similar_eq_map_filter by (auto simp: make_candidate_def)



lemma collect_similar_threshold:
  "list_all (\<lambda>c. MIN_SIMILARITY_THRESHOLD \<le> similarity c) (collect_similar q rs)"
  unfolding collect_similar_eq_map_filter
  by (auto simp: list_all_iff make_candidate_def)

subsection \<open>Sort, slice and rank together\<close>

lemma list_all_pipeline:
  assumes "list_all (\<lambda>c. P (similarity c)) xs"
  shows "list_all (\<lambda>c. P (similarity c)) (add_ranking (py_slice_to k (py_sort_reverse similarity xs)))"
proof -
  have "set (py_slice_to k (py_sort_reverse similarity xs)) \<subseteq> set xs"
    using set_py_slice_to [of k "py_sort_reverse similarity xs"] by (simp add: set_py_sort_reverse)
  with assms have "list_all (\<lambda>c. P (similarity c)) (py_slice_to k (py_sort_reverse similarity xs))"
    by (auto simp: list_all_iff)
  then show ?thesis by (simp add: list_all_similarity_add_ranking)
qed



lemma untruncated_pipeline:
  assumes "int (length xs) \<le> k" "x \<in> set xs"
  shows "x\<lparr>rank := None\<rparr>
     \<in> set (map (\<lambda>c. c\<lparr>rank := None\<rparr>) (add_ranking (py_slice_to k (py_sort_reverse similarity xs))))"
proof -
  have "py_slice_to k (py_sort_reverse similarity xs) = py_sort_reverse similarity xs"
    using assms(1) by (intro py_slice_to_all) (simp add: length_py_sort_reverse)
  then show ?thesis
    using assms(2) by (simp add: add_ranking_unrank set_py_sort_reverse)
qed

subsection \<open>The scans of the store\<close>

lemma find_query_doc_first:
  assumes "Some q \<notin> set (map (\<lambda>x. metadata x ''url'') pre)" "metadata d ''url'' = Some q"
  shows "find_query_doc q (paired_docs (chroma_get (pre @ d # post))) = Some (page_content d)"
  using assms by (induction pre) (auto simp: paired_docs_def chroma_get_def)

lemma find_query_doc_absent:
  assumes "Some q \<notin> set (map (\<lambda>x. metadata x ''url'') store)"
  shows "find_query_doc q (paired_docs (chroma_get store)) = None"
  using assms by (induction store) (auto simp: paired_docs_def chroma_get_def)

lemma scan_context_first:
  assumes "Some u \<notin> set (map (\<lambda>x. metadata x ''url'') pre)" "metadata d ''url'' = Some u"
  shows "scan_context u n (paired_docs (chroma_get (pre @ d # post)))
           = Some (if int (length (page_content d)) > n
                   then py_slice_to n (page_content d) @ ''...'' else page_content d)"
  using assms by (induction pre) (auto simp: paired_docs_def chroma_get_def)

lemma scan_context_absent:
  assumes "Some u \<notin> set (map (\<lambda>x. metadata x ''url'') store)"
  shows "scan_context u n (paired_docs (chroma_get store)) = None"
  using assms by (induction store) (auto simp: paired_docs_def chroma_get_def)

lemma scan_url_iff: "scan_url u mds \<longleftrightarrow> Some u \<in> set (map (\<lambda>md. md ''url'') mds)"
  by (induction mds) auto

subsection \<open>The paths through find_similar_posts\<close>

lemma find_similar_posts_cases:
  "find_similar_posts lib m q k_opt = [] \<or>
   (\<exists>store t rs. vectorstore m = Some store \<and> chroma_bool lib store
      \<and> find_query_doc q (paired_docs (chroma_get store)) = Some t \<and> t \<noteq> []
      \<and> similarity_search_with_score lib store t (top_k_or_default k_opt + 1) = Inr rs
      \<and> find_similar_posts lib m q k_opt =
          add_ranking (py_slice_to (top_k_or_default k_opt)
            (py_sort_reverse similarity (collect_similar q rs))))"
  by (auto simp: find_similar_posts_def search_similar_def top_k_or_default_def paired_docs_def
        add_ranking_def Let_def
      split: option.splits sum.splits py_exception.splits)

lemma find_similar_posts_success:
  assumes "vectorstore m = Some store" "chroma_bool lib store"
    "find_query_doc q (paired_docs (chroma_get store)) = Some t" "t \<noteq> []"
    "similarity_search_with_score lib store t (top_k_or_default k_opt + 1) = Inr rs"
  shows "find_similar_posts lib m q k_opt =
          add_ranking (py_slice_to (top_k_or_default k_opt)
            (py_sort_reverse similarity (collect_similar q rs)))"
  using assms
  by (auto simp: find_similar_posts_def search_similar_def top_k_or_default_def paired_docs_def
        add_ranking_def Let_def
      split: option.splits sum.splits py_exception.splits)

lemma find_similar_posts_error:
  "search_similar lib m q (Some (top_k_or_default k_opt)) = Inl e \<Longrightarrow> find_similar_posts lib m q k_opt = []"
  by (simp add: find_similar_posts_def split: py_exception.splits)

lemma search_similar_success:
  assumes "vectorstore m = Some store" "chroma_bool lib store"
    "find_query_doc q (paired_docs (chroma_get store)) = Some t" "t \<noteq> []"
    "similarity_search_with_score lib store t (k + 1) = Inr rs"
  shows "search_similar lib m q (Some k)
           = Inr (py_slice_to k (py_sort_reverse similarity (collect_similar q rs)))"
  using assms by (simp add: search_similar_def Let_def)

lemma collect_similar_rank: "c \<in> set (collect_similar q rs) \<Longrightarrow> c\<lparr>rank := None\<rparr> = c"
  unfolding collect_similar_eq_map_filter by (auto simp: make_candidate_def)

lemma find_similar_posts_unranked:
  assumes "vectorstore m = Some store" "chroma_bool lib store"
    "find_query_doc q (paired_docs (chroma_get store)) = Some t" "t \<noteq> []"
    "similarity_search_with_score lib store t (top_k_or_default k_opt + 1) = Inr rs"
  shows "map (\<lambda>c. c\<lparr>rank := None\<rparr>) (find_similar_posts lib m q k_opt)
           = py_slice_to (top_k_or_default k_opt)
               (py_sort_reverse similarity (collect_similar q rs))"
proof -
  let ?ys = "py_slice_to (top_k_or_default k_opt) (py_sort_reverse similarity (collect_similar q rs))"
  have "set ?ys \<subseteq> set (collect_similar q rs)"
    using set_py_slice_to [of "top_k_or_default k_opt" "py_sort_reverse similarity (collect_similar q rs)"]
    by (simp add: set_py_sort_reverse)
  then have "map (\<lambda>c. c\<lparr>rank := None\<rparr>) ?ys = ?ys"
    by (intro map_idI collect_similar_rank) auto
  then show ?thesis
    by (simp add: find_similar_posts_success [OF assms] add_ranking_unrank)
qed

subsection \<open>Sessions\<close>

lemma exec_keeps_manager: "snd (exec lib m c) = m"
  by (cases c) simp_all

lemma run_keeps_manager: "snd (run m steps) = m"
proof (induction steps arbitrary: m)
  case Nil
  show ?case by simp
next
  case (Cons step steps)
  obtain lib c where step: "step = (lib, c)" by (cases step)
  have "snd (exec lib m c) = m" by (rule exec_keeps_manager)
  then show ?case
    using Cons.IH [of m] by (simp add: step split_def Let_def)
qed

lemma run_Cons:
  "fst (run m ((lib, c) # steps)) = fst (exec lib m c) # fst (run m steps)"
proof -
  have "snd (exec lib m c) = m" by (rule exec_keeps_manager)
  then show ?thesis by (simp add: split_def Let_def)
qed

lemma length_run: "length (fst (run m steps)) = length steps"
proof (induction steps)
  case Nil
  show ?case by simp
next
  case (Cons step steps)
  obtain lib c where step: "step = (lib, c)" by (cases step)
  show ?case unfolding step run_Cons using Cons.IH by simp
qed

lemma run_nth:
  "i < length steps \<Longrightarrow> steps ! i = (lib, c) \<Longrightarrow> fst (run m steps) ! i = fst (exec lib m c)"
proof (induction steps arbitrary: i)
  case Nil
  then show ?case by simp
next
  case (Cons step steps)
  obtain lib0 c0 where step: "step = (lib0, c0)" by (cases step)
  show ?case
  proof (cases i)
    case 0
    with Cons.prems show ?thesis by (simp add: step run_Cons del: run.simps)
  next
    case (Suc j)
    with Cons.prems have "j < length steps" "steps ! j = (lib, c)" by simp_all
    then have "fst (run m steps) ! j = fst (exec lib m c)" by (rule Cons.IH)
    then show ?thesis by (simp add: step run_Cons Suc del: run.simps)
  qed
qed

lemma same_answer_find_similar_posts:
  assumes "same_answer lib lib' m q k_opt"
  shows "find_similar_posts lib m q k_opt = find_similar_posts lib' m q k_opt"
proof (cases "vectorstore m")
  case None
  then show ?thesis
    by (simp add: find_similar_posts_def search_similar_def Let_def)
next
  case (Some store)
  with assms have b: "chroma_bool lib store = chroma_bool lib' store"
    by (simp add: same_answer_def)
  show ?thesis
  proof (cases "find_query_doc q (paired_docs (chroma_get store))")
    case None
    with Some b show ?thesis
      by (simp add: find_similar_posts_def search_similar_def Let_def)
  next
    case (Some t)
    with assms \<open>vectorstore m = Some store\<close>
    have "similarity_search_with_score lib store t (top_k_or_default k_opt + 1)
            = similarity_search_with_score lib' store t (top_k_or_default k_opt + 1)"
      by (simp add: same_answer_def)
    with Some b \<open>vectorstore m = Some store\<close> show ?thesis
      by (simp add: find_similar_posts_def search_similar_def Let_def)
  qed
qed

subsection \<open>The queries of the examples\<close>


section \<open>Failures of a query\<close>

text \<open>
  C1, as the code has it. \<^verbatim>\<open>search_similar\<close> raises a ValueError when no vectorstore is loaded,
  when the store is empty and when no record carries the query url; the two messages
  tell the conditions apart. \<^verbatim>\<open>find_similar_posts\<close> catches every exception and returns the
  empty list, so its caller receives the empty list for these conditions, the value it
  also receives when the url resolved and no candidate reached the threshold.
\<close>

theorem failures_become_empty_list:
  "(vectorstore m = None \<longrightarrow>
       search_similar lib m q k_opt
         = Inl (ValueError ''Vectorstore not initialized. Load or create one first.'')
       \<and> find_similar_posts lib m q k_opt = [])
   \<and> (vectorstore m = Some [] \<longrightarrow>
       (\<exists>msg. search_similar lib m q k_opt = Inl (ValueError msg))
       \<and> find_similar_posts lib m q k_opt = [])
   \<and> (vectorstore m = Some store \<and> chroma_bool lib store
        \<and> Some q \<notin> set (map (\<lambda>x. metadata x ''url'') store) \<longrightarrow>
       search_similar lib m q k_opt = Inl (ValueError (''URL not found in database: '' @ q))
       \<and> find_similar_posts lib m q k_opt = [])"
proof (intro conjI impI)
  assume "vectorstore m = None"
  then have s: "search_similar lib m q k = Inl (ValueError ''Vectorstore not initialized. Load or create one first.'')" for k
    by (simp add: search_similar_def Let_def)
  show "search_similar lib m q k_opt = Inl (ValueError ''Vectorstore not initialized. Load or create one first.'')"
    by (rule s)
  show "find_similar_posts lib m q k_opt = []"
    by (rule find_similar_posts_error [OF s])
next
  assume "vectorstore m = Some []"
  then have s: "\<exists>msg. search_similar lib m q k = Inl (ValueError msg)" for k
    by (simp add: search_similar_def Let_def chroma_get_def paired_docs_def)
  show "\<exists>msg. search_similar lib m q k_opt = Inl (ValueError msg)"
    by (rule s)
  from s [of "Some (top_k_or_default k_opt)"] show "find_similar_posts lib m q k_opt = []"
    by (auto dest: find_similar_posts_error)
next
  assume h: "vectorstore m = Some store \<and> chroma_bool lib store
        \<and> Some q \<notin> set (map (\<lambda>x. metadata x ''url'') store)"
  then have "find_query_doc q (paired_docs (chroma_get store)) = None"
    by (simp add: find_query_doc_absent)
  with h have s: "search_similar lib m q k = Inl (ValueError (''URL not found in database: '' @ q))" for k
    by (simp add: search_similar_def Let_def)
  show "search_similar lib m q k_opt = Inl (ValueError (''URL not found in database: '' @ q))"
    by (rule s)
  show "find_similar_posts lib m q k_opt = []"
    by (rule find_similar_posts_error [OF s])
qed

theorem failures_become_empty_list_witness:
  "vectorstore \<lparr>vectorstore = None\<rparr> = None
   \<and> search_similar scenario_library \<lparr>vectorstore = None\<rparr> ''a'' (Some 5)
       = Inl (ValueError ''Vectorstore not initialized. Load or create one first.'')
   \<and> find_similar_posts scenario_library \<lparr>vectorstore = None\<rparr> ''a'' (Some 5) = []
   \<and> (\<exists>msg. search_similar scenario_library \<lparr>vectorstore = Some []\<rparr> ''a'' (Some 5)
          = Inl (ValueError msg))
   \<and> find_similar_posts scenario_library \<lparr>vectorstore = Some []\<rparr> ''a'' (Some 5) = []
   \<and> chroma_bool scenario_library [doc_a, doc_b, doc_c]
   \<and> Some ''unknown-id'' \<notin> set (map (\<lambda>x. metadata x ''url'') [doc_a, doc_b, doc_c])
   \<and> search_similar scenario_library scenario_manager ''unknown-id'' (Some 5)
       = Inl (ValueError ''URL not found in database: unknown-id'')
   \<and> find_similar_posts scenario_library scenario_manager ''unknown-id'' (Some 5) = []"
proof -
  have b: "chroma_bool scenario_library [doc_a, doc_b, doc_c]"
    by (simp add: scenario_library_def)
  have x: "Some ''unknown-id'' \<notin> set (map (\<lambda>x. metadata x ''url'') [doc_a, doc_b, doc_c])"
    by (simp add: doc_a_def doc_b_def doc_c_def)
  have s: "vectorstore scenario_manager = Some [doc_a, doc_b, doc_c]"
    by (simp add: scenario_manager_def)
  note t1 = failures_become_empty_list [of "\<lparr>vectorstore = None\<rparr>" scenario_library "''a''" "Some 5"]
  note t2 = failures_become_empty_list [of "\<lparr>vectorstore = Some []\<rparr>" scenario_library "''a''" "Some 5"]
  note t3 = failures_become_empty_list [of scenario_manager scenario_library "''unknown-id''" "Some 5"
      "[doc_a, doc_b, doc_c]"]
  from t1 have r1: "search_similar scenario_library \<lparr>vectorstore = None\<rparr> ''a'' (Some 5)
       = Inl (ValueError ''Vectorstore not initialized. Load or create one first.'')
     \<and> find_similar_posts scenario_library \<lparr>vectorstore = None\<rparr> ''a'' (Some 5) = []"
    by simp
  from t2 have r2: "(\<exists>msg. search_similar scenario_library \<lparr>vectorstore = Some []\<rparr> ''a'' (Some 5)
          = Inl (ValueError msg))
     \<and> find_similar_posts scenario_library \<lparr>vectorstore = Some []\<rparr> ''a'' (Some 5) = []"
    by simp
  from t3 b x s have r3: "search_similar scenario_library scenario_manager ''unknown-id'' (Some 5)
       = Inl (ValueError ''URL not found in database: unknown-id'')
     \<and> find_similar_posts scenario_library scenario_manager ''unknown-id'' (Some 5) = []"
    by simp
  from b x r1 r2 r3 show ?thesis by simp
qed

text \<open>
  C1 as stated does not hold: on the store of three posts the url \<^verbatim>\<open>unknown-id\<close> is not
  stored, and the answer is the empty list; so it is without a vectorstore and on an
  empty store.
\<close>

theorem failures_reported_counterexample:
  "\<not> validate_url scenario_manager ''unknown-id''
   \<and> find_similar_posts scenario_library scenario_manager ''unknown-id'' (Some 5) = []
   \<and> find_similar_posts scenario_library \<lparr>vectorstore = None\<rparr> ''a'' (Some 5) = []
   \<and> find_similar_posts scenario_library \<lparr>vectorstore = Some []\<rparr> ''a'' (Some 5) = []"
  by (simp add: find_similar_posts_def search_similar_def scenario_library_def scenario_manager_def
        validate_url_def vectorstore_get_def chroma_get_def paired_docs_def
        doc_a_def doc_b_def doc_c_def top_k_or_default_def)

section \<open>The query post is left out\<close>

text \<open>
  C2. No entry of the list returned by \<^verbatim>\<open>find_similar_posts\<close> carries the query url. When the
  url resolves to a stored text, the entries all come from the answer of the
  nearest-neighbour query for \<open>k + 1\<close> neighbours, from which every pair with the query
  url has been removed, wherever it stood.
\<close>

theorem query_post_excluded:
  "Some q \<notin> set (map url (find_similar_posts lib m q k_opt))
   \<and> (\<forall>store t rs.
         vectorstore m = Some store \<and> chroma_bool lib store
         \<and> find_query_doc q (paired_docs (chroma_get store)) = Some t \<and> t \<noteq> []
         \<and> similarity_search_with_score lib store t (top_k_or_default k_opt + 1) = Inr rs
         \<longrightarrow> set (map url (find_similar_posts lib m q k_opt))
             \<subseteq> set (map (\<lambda>(doc, score). metadata doc ''url'')
                       (filter (\<lambda>(doc, score). metadata doc ''url'' \<noteq> Some q) rs)))"
proof (intro conjI allI impI)
  show "Some q \<notin> set (map url (find_similar_posts lib m q k_opt))"
  proof -
    from find_similar_posts_cases [of lib m q k_opt]
    consider "find_similar_posts lib m q k_opt = []"
      | rs where "find_similar_posts lib m q k_opt =
          add_ranking (py_slice_to (top_k_or_default k_opt)
            (py_sort_reverse similarity (collect_similar q rs)))"
      by blast
    then show ?thesis
    proof cases
      case 1
      then show ?thesis by simp
    next
      case 2
      have "set (map url (find_similar_posts lib m q k_opt))
            \<subseteq> set (map url (collect_similar q rs))"
        using set_py_slice_to [of "top_k_or_default k_opt" "py_sort_reverse similarity (collect_similar q rs)"]
        by (auto simp: 2 add_ranking_url set_py_sort_reverse)
      then show ?thesis
        using collect_similar_no_query [of q rs] by blast
    qed
  qed
next
  fix store t rs
  assume h: "vectorstore m = Some store \<and> chroma_bool lib store
         \<and> find_query_doc q (paired_docs (chroma_get store)) = Some t \<and> t \<noteq> []
         \<and> similarity_search_with_score lib store t (top_k_or_default k_opt + 1) = Inr rs"
  then have eq: "find_similar_posts lib m q k_opt =
          add_ranking (py_slice_to (top_k_or_default k_opt)
            (py_sort_reverse similarity (collect_similar q rs)))"
    by (intro find_similar_posts_success) auto
  have "set (map url (find_similar_posts lib m q k_opt))
            \<subseteq> set (map url (collect_similar q rs))"
    using set_py_slice_to [of "top_k_or_default k_opt" "py_sort_reverse similarity (collect_similar q rs)"]
    by (auto simp: eq add_ranking_url set_py_sort_reverse)
  also have "\<dots> \<subseteq> set (map (\<lambda>(doc, score). metadata doc ''url'')
                       (filter (\<lambda>(doc, score). metadata doc ''url'' \<noteq> Some q) rs))"
    unfolding collect_similar_eq_map_filter
    by (auto simp: make_candidate_def)
  finally show "set (map url (find_similar_posts lib m q k_opt))
             \<subseteq> set (map (\<lambda>(doc, score). metadata doc ''url'')
                       (filter (\<lambda>(doc, score). metadata doc ''url'' \<noteq> Some q) rs))" .
qed

theorem query_post_excluded_witness:
  "Some ''a'' \<notin> set (map url (find_similar_posts tied_library scenario_manager ''a'' (Some 2)))
   \<and> set (map url (find_similar_posts tied_library scenario_manager ''a'' (Some 2)))
       \<subseteq> {Some ''b'', Some ''c''}"
proof -
  have h: "vectorstore scenario_manager = Some [doc_a, doc_b, doc_c]
      \<and> chroma_bool tied_library [doc_a, doc_b, doc_c]
      \<and> find_query_doc ''a'' (paired_docs (chroma_get [doc_a, doc_b, doc_c])) = Some ''text of A''
      \<and> ''text of A'' \<noteq> []
      \<and> similarity_search_with_score tied_library [doc_a, doc_b, doc_c] ''text of A''
            (top_k_or_default (Some 2) + 1) = Inr [(doc_b, 0), (doc_a, 0), (doc_c, 0)]"
    by (simp add: scenario_manager_def tied_library_def chroma_get_def paired_docs_def
          doc_a_def doc_b_def doc_c_def top_k_or_default_def)
  have "set (map (\<lambda>(doc, score). metadata doc ''url'')
          (filter (\<lambda>(doc, score). metadata doc ''url'' \<noteq> Some ''a'')
             [(doc_b, 0::real), (doc_a, 0), (doc_c, 0)])) = {Some ''b'', Some ''c''}"
    by (simp add: doc_a_def doc_b_def doc_c_def)
  with h query_post_excluded [of "''a''" tied_library scenario_manager "Some 2"]
  show ?thesis by (metis (no_types, lifting))
qed

section \<open>Shape of the returned list\<close>




section \<open>From distance to similarity\<close>

text \<open>
  C4. When the url resolves and the library answers the query for \<open>k + 1\<close> neighbours with
  the pairs \<open>rs\<close>, what \<^verbatim>\<open>search_similar\<close> returns is the slice \<^verbatim>\<open>[:k]\<close> of the sorted list of the
  records made from the pairs that are not the query post and reach the threshold, each
  record carrying the url, title and text of its document and the similarity \<open>1 - d / 2\<close>
  of its own raw distance \<open>d\<close>; \<^verbatim>\<open>find_similar_posts\<close> returns these records with ranks added.
  So every returned entry is a retrieved document with the similarity \<open>1 - d / 2\<close> of its
  distance. Distance 0 gives 1, distance 1 gives 0.5 and distance 2 gives 0.
\<close>

theorem similarity_from_distance:
  assumes "vectorstore m = Some store" and "chroma_bool lib store"
    and "find_query_doc q (paired_docs (chroma_get store)) = Some t" and "t \<noteq> []"
    and "similarity_search_with_score lib store t (k + 1) = Inr rs"
  shows "search_similar lib m q (Some k)
           = Inr (py_slice_to k (py_sort_reverse similarity
               (map (\<lambda>(doc, d). \<lparr>url = metadata doc ''url'', title = metadata doc ''title'',
                                 content = page_content doc, similarity = 1 - d / 2, rank = None\<rparr>)
                  (filter (\<lambda>(doc, d). metadata doc ''url'' \<noteq> Some q
                                    \<and> MIN_SIMILARITY_THRESHOLD \<le> 1 - d / 2) rs))))
         \<and> map (\<lambda>c. c\<lparr>rank := None\<rparr>) (find_similar_posts lib m q (Some k))
           = py_slice_to k (py_sort_reverse similarity
               (map (\<lambda>(doc, d). \<lparr>url = metadata doc ''url'', title = metadata doc ''title'',
                                 content = page_content doc, similarity = 1 - d / 2, rank = None\<rparr>)
                  (filter (\<lambda>(doc, d). metadata doc ''url'' \<noteq> Some q
                                    \<and> MIN_SIMILARITY_THRESHOLD \<le> 1 - d / 2) rs)))
         \<and> set (map (\<lambda>c. (url c, title c, content c, similarity c))
                  (find_similar_posts lib m q (Some k)))
             \<subseteq> set (map (\<lambda>(doc, d). (metadata doc ''url'', metadata doc ''title'',
                                        page_content doc, 1 - d / 2)) rs)
         \<and> find_similar_posts lib m q None = find_similar_posts lib m q (Some FINAL_SUGGESTIONS)
         \<and> similarity_of_score 0 = 1
         \<and> similarity_of_score 1 = 0.5
         \<and> similarity_of_score 2 = 0"
proof -
  let ?mk = "\<lambda>(doc, d). \<lparr>url = metadata doc ''url'', title = metadata doc ''title'',
                 content = page_content doc, similarity = 1 - d / 2, rank = None\<rparr>"
  let ?keep = "\<lambda>(doc, d). metadata doc ''url'' \<noteq> Some q \<and> MIN_SIMILARITY_THRESHOLD \<le> 1 - d / 2"
  let ?xs = "map ?mk (filter ?keep rs)"
  let ?R = "find_similar_posts lib m q (Some k)"
  have k: "top_k_or_default (Some k) = k"
    by (simp add: top_k_or_default_def)
  have xs: "collect_similar q rs = ?xs"
    unfolding collect_similar_eq_map_filter
    by (simp add: make_candidate_def similarity_of_score_def split_def)
  have a: "search_similar lib m q (Some k) = Inr (py_slice_to k (py_sort_reverse similarity ?xs))"
    using search_similar_success [OF assms] by (simp only: xs)
  have "similarity_search_with_score lib store t (top_k_or_default (Some k) + 1) = Inr rs"
    using assms(5) by (simp only: k)
  then have "map (\<lambda>c. c\<lparr>rank := None\<rparr>) ?R
      = py_slice_to (top_k_or_default (Some k)) (py_sort_reverse similarity (collect_similar q rs))"
    by (rule find_similar_posts_unranked [OF assms(1-4)])
  then have b: "map (\<lambda>c. c\<lparr>rank := None\<rparr>) ?R = py_slice_to k (py_sort_reverse similarity ?xs)"
    by (simp only: k xs)
  have "set (map (\<lambda>c. c\<lparr>rank := None\<rparr>) ?R) \<subseteq> set ?xs"
    unfolding b
    using set_py_slice_to [of k "py_sort_reverse similarity ?xs"]
    by (simp only: set_py_sort_reverse)
  then have sub: "set (map (\<lambda>c. c\<lparr>rank := None\<rparr>) ?R) \<subseteq> set (map ?mk rs)"
    by auto
  have c: "set (map (\<lambda>c. (url c, title c, content c, similarity c)) ?R)
             \<subseteq> set (map (\<lambda>(doc, d). (metadata doc ''url'', metadata doc ''title'',
                                        page_content doc, 1 - d / 2)) rs)"
  proof
    fix x
    assume "x \<in> set (map (\<lambda>c. (url c, title c, content c, similarity c)) ?R)"
    then obtain c where c: "c \<in> set ?R" "x = (url c, title c, content c, similarity c)"
      by auto
    then have "c\<lparr>rank := None\<rparr> \<in> set (map ?mk rs)"
      using sub by auto
    then obtain doc d where dd: "(doc, d) \<in> set rs" "c\<lparr>rank := None\<rparr> = ?mk (doc, d)"
      by auto
    from dd(2) have "x = (metadata doc ''url'', metadata doc ''title'', page_content doc, 1 - d / 2)"
      unfolding c(2) by (cases c) simp
    with dd(1) show "x \<in> set (map (\<lambda>(doc, d). (metadata doc ''url'', metadata doc ''title'',
                                        page_content doc, 1 - d / 2)) rs)"
      by force
  qed
  have d: "find_similar_posts lib m q None = find_similar_posts lib m q (Some FINAL_SUGGESTIONS)"
    by (simp add: find_similar_posts_def top_k_or_default_def)
  have e: "similarity_of_score 0 = 1 \<and> similarity_of_score 1 = 0.5 \<and> similarity_of_score 2 = 0"
    by (simp add: similarity_of_score_def)
  from a b c d e show ?thesis by blast
qed

theorem similarity_from_distance_witness:
  "search_similar boundary_library scenario_manager ''a'' (Some 2)
     = Inr [\<lparr>url = Some ''b'', title = Some ''B'', content = ''text of B'',
             similarity = 0.5, rank = None\<rparr>]
   \<and> map (\<lambda>c. c\<lparr>rank := None\<rparr>) (find_similar_posts boundary_library scenario_manager ''a'' (Some 2))
       = [\<lparr>url = Some ''b'', title = Some ''B'', content = ''text of B'',
           similarity = 0.5, rank = None\<rparr>]
   \<and> search_similar tied_library scenario_manager ''a'' (Some 2)
     = Inr [\<lparr>url = Some ''b'', title = Some ''B'', content = ''text of B'',
             similarity = 1, rank = None\<rparr>,
            \<lparr>url = Some ''c'', title = Some ''C'', content = ''text of C'',
             similarity = 1, rank = None\<rparr>]
   \<and> set (map (\<lambda>c. (url c, title c, content c, similarity c))
            (find_similar_posts tied_library scenario_manager ''a'' (Some 2)))
       \<subseteq> {(Some ''b'', Some ''B'', ''text of B'', 1), (Some ''a'', Some ''A'', ''text of A'', 1),
           (Some ''c'', Some ''C'', ''text of C'', 1)}"
proof -
  have hb: "vectorstore scenario_manager = Some [doc_a, doc_b, doc_c]"
    "chroma_bool boundary_library [doc_a, doc_b, doc_c]"
    "find_query_doc ''a'' (paired_docs (chroma_get [doc_a, doc_b, doc_c])) = Some ''text of A''"
    "''text of A'' \<noteq> []"
    "similarity_search_with_score boundary_library [doc_a, doc_b, doc_c] ''text of A'' (2 + 1)
       = Inr [(doc_a, 0), (doc_b, 1), (doc_c, 1.001)]"
    by (simp_all add: scenario_manager_def boundary_library_def chroma_get_def paired_docs_def
          doc_a_def doc_b_def doc_c_def)
  have ht: "chroma_bool tied_library [doc_a, doc_b, doc_c]"
    "similarity_search_with_score tied_library [doc_a, doc_b, doc_c] ''text of A'' (2 + 1)
       = Inr [(doc_b, 0), (doc_a, 0), (doc_c, 0)]"
    by (simp_all add: tied_library_def)
  note tb = similarity_from_distance [OF hb]
  note tt = similarity_from_distance [OF hb(1) ht(1) hb(3) hb(4) ht(2)]
  have b1: "search_similar boundary_library scenario_manager ''a'' (Some 2)
     = Inr [\<lparr>url = Some ''b'', title = Some ''B'', content = ''text of B'',
             similarity = 0.5, rank = None\<rparr>]"
    using tb
    by (simp add: doc_a_def doc_b_def doc_c_def MIN_SIMILARITY_THRESHOLD_def
          py_sort_reverse_def py_slice_to_def)
  have b2: "map (\<lambda>c. c\<lparr>rank := None\<rparr>) (find_similar_posts boundary_library scenario_manager ''a'' (Some 2))
       = [\<lparr>url = Some ''b'', title = Some ''B'', content = ''text of B'',
           similarity = 0.5, rank = None\<rparr>]"
    using tb
    by (simp add: doc_a_def doc_b_def doc_c_def MIN_SIMILARITY_THRESHOLD_def
          py_sort_reverse_def py_slice_to_def)
  have t1: "search_similar tied_library scenario_manager ''a'' (Some 2)
     = Inr [\<lparr>url = Some ''b'', title = Some ''B'', content = ''text of B'',
             similarity = 1, rank = None\<rparr>,
            \<lparr>url = Some ''c'', title = Some ''C'', content = ''text of C'',
             similarity = 1, rank = None\<rparr>]"
    using tt
    by (simp add: doc_a_def doc_b_def doc_c_def MIN_SIMILARITY_THRESHOLD_def
          py_sort_reverse_def py_slice_to_def)
  have t2: "set (map (\<lambda>c. (url c, title c, content c, similarity c))
            (find_similar_posts tied_library scenario_manager ''a'' (Some 2)))
       \<subseteq> {(Some ''b'', Some ''B'', ''text of B'', 1), (Some ''a'', Some ''A'', ''text of A'', 1),
           (Some ''c'', Some ''C'', ''text of C'', 1)}"
  proof -
    have "set (map (\<lambda>(doc, d). (metadata doc ''url'', metadata doc ''title'', page_content doc, 1 - d / 2))
              [(doc_b, 0::real), (doc_a, 0), (doc_c, 0)])
          = {(Some ''b'', Some ''B'', ''text of B'', 1), (Some ''a'', Some ''A'', ''text of A'', 1),
           (Some ''c'', Some ''C'', ''text of C'', 1)}"
      by (simp add: doc_a_def doc_b_def doc_c_def)
    with tt show ?thesis by (metis (no_types, lifting))
  qed
  from b1 b2 t1 t2 show ?thesis by blast
qed

section \<open>The threshold\<close>

text \<open>
  C5. The threshold is an inclusive cutoff. A retrieved pair, not the query post, whose
  similarity is at or above \<^verbatim>\<open>MIN_SIMILARITY_THRESHOLD\<close>, and so one whose similarity equals
  it, is kept by the loop at its place; one strictly below is dropped. No returned entry
  is below the threshold. A pair at or above the threshold is in the list that
  \<^verbatim>\<open>find_similar_posts\<close> returns for the count \<open>k\<close> whenever at most \<open>k\<close> pairs pass, which is so
  when the library answers with at most \<open>k + 1\<close> pairs, the query post among them: then the
  slice \<^verbatim>\<open>[:k]\<close> cuts nothing off.
\<close>

theorem threshold_inclusive:
  assumes "metadata doc ''url'' \<noteq> Some q"
  shows "(MIN_SIMILARITY_THRESHOLD \<le> similarity_of_score d \<longrightarrow>
            collect_similar q (before @ (doc, d) # after)
              = collect_similar q before @ make_candidate doc (similarity_of_score d)
                  # collect_similar q after)
       \<and> (similarity_of_score d = MIN_SIMILARITY_THRESHOLD \<longrightarrow>
            collect_similar q (before @ (doc, d) # after)
              = collect_similar q before @ make_candidate doc MIN_SIMILARITY_THRESHOLD
                  # collect_similar q after)
       \<and> (similarity_of_score d < MIN_SIMILARITY_THRESHOLD \<longrightarrow>
            collect_similar q (before @ (doc, d) # after)
              = collect_similar q before @ collect_similar q after)
       \<and> list_all (\<lambda>c. MIN_SIMILARITY_THRESHOLD \<le> similarity c) (find_similar_posts lib m q k_opt)
       \<and> (\<forall>store t rs k.
             vectorstore m = Some store \<and> chroma_bool lib store
             \<and> find_query_doc q (paired_docs (chroma_get store)) = Some t \<and> t \<noteq> []
             \<and> similarity_search_with_score lib store t (k + 1) = Inr rs
             \<and> (doc, d) \<in> set rs \<and> MIN_SIMILARITY_THRESHOLD \<le> similarity_of_score d
             \<and> int (length (filter (\<lambda>(doc', d'). metadata doc' ''url'' \<noteq> Some q
                      \<and> MIN_SIMILARITY_THRESHOLD \<le> similarity_of_score d') rs)) \<le> k
             \<longrightarrow> make_candidate doc (similarity_of_score d)
                   \<in> set (map (\<lambda>c. c\<lparr>rank := None\<rparr>) (find_similar_posts lib m q (Some k))))
       \<and> (\<forall>store t rs k.
             vectorstore m = Some store \<and> chroma_bool lib store
             \<and> find_query_doc q (paired_docs (chroma_get store)) = Some t \<and> t \<noteq> []
             \<and> similarity_search_with_score lib store t (k + 1) = Inr rs
             \<and> (doc, d) \<in> set rs \<and> MIN_SIMILARITY_THRESHOLD \<le> similarity_of_score d
             \<and> int (length rs) \<le> k + 1
             \<and> Some q \<in> set (map (\<lambda>(doc', d'). metadata doc' ''url'') rs)
             \<longrightarrow> make_candidate doc (similarity_of_score d)
                   \<in> set (map (\<lambda>c. c\<lparr>rank := None\<rparr>) (find_similar_posts lib m q (Some k))))"
proof -
  let ?keep = "\<lambda>(doc', d'). metadata doc' ''url'' \<noteq> Some q
                      \<and> MIN_SIMILARITY_THRESHOLD \<le> similarity_of_score d'"
  from find_similar_posts_cases [of lib m q k_opt]
  consider "find_similar_posts lib m q k_opt = []"
    | rs where "find_similar_posts lib m q k_opt =
          add_ranking (py_slice_to (top_k_or_default k_opt)
            (py_sort_reverse similarity (collect_similar q rs)))"
    by blast
  then have a: "list_all (\<lambda>c. MIN_SIMILARITY_THRESHOLD \<le> similarity c) (find_similar_posts lib m q k_opt)"
  proof cases
    case 1
    then show ?thesis by simp
  next
    case 2
    show ?thesis unfolding 2 by (intro list_all_pipeline collect_similar_threshold)
  qed
  have b: "make_candidate doc (similarity_of_score d)
             \<in> set (map (\<lambda>c. c\<lparr>rank := None\<rparr>) (find_similar_posts lib m q (Some k)))"
    if h: "vectorstore m = Some store \<and> chroma_bool lib store
             \<and> find_query_doc q (paired_docs (chroma_get store)) = Some t \<and> t \<noteq> []
             \<and> similarity_search_with_score lib store t (k + 1) = Inr rs
             \<and> (doc, d) \<in> set rs \<and> MIN_SIMILARITY_THRESHOLD \<le> similarity_of_score d
             \<and> int (length (filter ?keep rs)) \<le> k" for store t rs k
  proof -
    have k: "top_k_or_default (Some k) = k"
      by (simp add: top_k_or_default_def)
    from h have eq: "find_similar_posts lib m q (Some k) =
          add_ranking (py_slice_to k (py_sort_reverse similarity (collect_similar q rs)))"
      using find_similar_posts_success [of m store lib q t "Some k" rs] by (simp add: k)
    have len: "int (length (collect_similar q rs)) \<le> k"
      using h unfolding collect_similar_eq_map_filter by simp
    have "make_candidate doc (similarity_of_score d) \<in> set (collect_similar q rs)"
      unfolding collect_similar_eq_map_filter using h assms by force
    moreover have "(make_candidate doc (similarity_of_score d))\<lparr>rank := None\<rparr>
        = make_candidate doc (similarity_of_score d)"
      by (simp add: make_candidate_def)
    ultimately show ?thesis
      unfolding eq using untruncated_pipeline [OF len, of "make_candidate doc (similarity_of_score d)"]
      by simp
  qed
  have b': "make_candidate doc (similarity_of_score d)
             \<in> set (map (\<lambda>c. c\<lparr>rank := None\<rparr>) (find_similar_posts lib m q (Some k)))"
    if h: "vectorstore m = Some store \<and> chroma_bool lib store
             \<and> find_query_doc q (paired_docs (chroma_get store)) = Some t \<and> t \<noteq> []
             \<and> similarity_search_with_score lib store t (k + 1) = Inr rs
             \<and> (doc, d) \<in> set rs \<and> MIN_SIMILARITY_THRESHOLD \<le> similarity_of_score d
             \<and> int (length rs) \<le> k + 1
             \<and> Some q \<in> set (map (\<lambda>(doc', d'). metadata doc' ''url'') rs)" for store t rs k
  proof -
    from h obtain x where x: "x \<in> set rs" "\<not> ?keep x"
      by auto
    then have "length (filter ?keep rs) < length rs"
      by (rule length_filter_less)
    with h have "int (length (filter ?keep rs)) \<le> k"
      by linarith
    with h show ?thesis
      by (intro b [of store t k rs]) simp
  qed
  have c: "MIN_SIMILARITY_THRESHOLD \<le> similarity_of_score d \<longrightarrow>
            collect_similar q (before @ (doc, d) # after)
              = collect_similar q before @ make_candidate doc (similarity_of_score d)
                  # collect_similar q after"
    using assms by (simp add: collect_similar_append)
  have c': "similarity_of_score d = MIN_SIMILARITY_THRESHOLD \<longrightarrow>
            collect_similar q (before @ (doc, d) # after)
              = collect_similar q before @ make_candidate doc MIN_SIMILARITY_THRESHOLD
                  # collect_similar q after"
    using assms by (simp add: collect_similar_append)
  have e: "similarity_of_score d < MIN_SIMILARITY_THRESHOLD \<longrightarrow>
            collect_similar q (before @ (doc, d) # after)
              = collect_similar q before @ collect_similar q after"
    using assms by (simp add: collect_similar_append)
  from a b b' c c' e show ?thesis by blast
qed

theorem threshold_inclusive_witness:
  "metadata doc_b ''url'' \<noteq> Some ''a''
   \<and> similarity_of_score 1 = MIN_SIMILARITY_THRESHOLD
   \<and> collect_similar ''a'' ([(doc_a, 0)] @ (doc_b, 1) # [(doc_c, 1.001)])
       = collect_similar ''a'' [(doc_a, 0)] @ make_candidate doc_b MIN_SIMILARITY_THRESHOLD
           # collect_similar ''a'' [(doc_c, 1.001)]
   \<and> MIN_SIMILARITY_THRESHOLD \<le> similarity_of_score 0.8
   \<and> collect_similar ''a'' ([(doc_a, 0)] @ (doc_b, 0.8) # [(doc_c, 1.001)])
       = collect_similar ''a'' [(doc_a, 0)] @ make_candidate doc_b (similarity_of_score 0.8)
           # collect_similar ''a'' [(doc_c, 1.001)]
   \<and> metadata doc_c ''url'' \<noteq> Some ''a''
   \<and> similarity_of_score 1.001 < MIN_SIMILARITY_THRESHOLD
   \<and> collect_similar ''a'' ([(doc_a, 0), (doc_b, 1)] @ (doc_c, 1.001) # [])
       = collect_similar ''a'' [(doc_a, 0), (doc_b, 1)] @ collect_similar ''a'' []
   \<and> find_similar_posts boundary_library scenario_manager ''a'' (Some 2)
       = [\<lparr>url = Some ''b'', title = Some ''B'', content = ''text of B'', similarity = 0.5, rank = Some 1\<rparr>]
   \<and> int (length (filter (\<lambda>(doc', d'). metadata doc' ''url'' \<noteq> Some ''a''
                      \<and> MIN_SIMILARITY_THRESHOLD \<le> similarity_of_score d')
              [(doc_a, 0), (doc_b, 1), (doc_c, 1.001)])) \<le> 2
   \<and> make_candidate doc_b (similarity_of_score 1)
       \<in> set (map (\<lambda>c. c\<lparr>rank := None\<rparr>) (find_similar_posts boundary_library scenario_manager ''a'' (Some 2)))"
proof -
  have ub: "metadata doc_b ''url'' \<noteq> Some ''a''"
    by (simp add: doc_b_def)
  have uc: "metadata doc_c ''url'' \<noteq> Some ''a''"
    by (simp add: doc_c_def)
  have e: "similarity_of_score 1 = MIN_SIMILARITY_THRESHOLD"
    by (simp add: similarity_of_score_def MIN_SIMILARITY_THRESHOLD_def)
  have g: "MIN_SIMILARITY_THRESHOLD \<le> similarity_of_score 0.8"
    by (simp add: similarity_of_score_def MIN_SIMILARITY_THRESHOLD_def)
  have l: "similarity_of_score 1.001 < MIN_SIMILARITY_THRESHOLD"
    by (simp add: similarity_of_score_def MIN_SIMILARITY_THRESHOLD_def)
  have v: "find_similar_posts boundary_library scenario_manager ''a'' (Some 2)
       = [\<lparr>url = Some ''b'', title = Some ''B'', content = ''text of B'', similarity = 0.5, rank = Some 1\<rparr>]"
    by (simp add: find_similar_posts_def search_similar_def boundary_library_def scenario_manager_def
        top_k_or_default_def chroma_get_def paired_docs_def doc_a_def doc_b_def doc_c_def
        similarity_of_score_def MIN_SIMILARITY_THRESHOLD_def make_candidate_def
        py_sort_reverse_def py_slice_to_def add_ranking_def)
  have h: "vectorstore scenario_manager = Some [doc_a, doc_b, doc_c]
      \<and> chroma_bool boundary_library [doc_a, doc_b, doc_c]
      \<and> find_query_doc ''a'' (paired_docs (chroma_get [doc_a, doc_b, doc_c])) = Some ''text of A''
      \<and> ''text of A'' \<noteq> []
      \<and> similarity_search_with_score boundary_library [doc_a, doc_b, doc_c] ''text of A''
            (2 + 1) = Inr [(doc_a, 0), (doc_b, 1), (doc_c, 1.001)]
      \<and> (doc_b, 1) \<in> set [(doc_a, 0::real), (doc_b, 1), (doc_c, 1.001)]
      \<and> MIN_SIMILARITY_THRESHOLD \<le> similarity_of_score 1
      \<and> int (length [(doc_a, 0::real), (doc_b, 1), (doc_c, 1.001)]) \<le> 2 + 1
      \<and> Some ''a'' \<in> set (map (\<lambda>(doc', d'). metadata doc' ''url'')
                             [(doc_a, 0::real), (doc_b, 1), (doc_c, 1.001)])"
    by (simp add: scenario_manager_def boundary_library_def chroma_get_def paired_docs_def
          doc_a_def doc_b_def doc_c_def
          similarity_of_score_def MIN_SIMILARITY_THRESHOLD_def)
  note t1 = threshold_inclusive [OF ub, of 1 "[(doc_a, 0)]" "[(doc_c, 1.001)]"
      boundary_library scenario_manager "Some 2"]
  note t2 = threshold_inclusive [OF uc, of "1.001" "[(doc_a, 0), (doc_b, 1)]" "[]"
      boundary_library scenario_manager "Some 2"]
  note t3 = threshold_inclusive [OF ub, of "0.8" "[(doc_a, 0)]" "[(doc_c, 1.001)]"
      boundary_library scenario_manager "Some 2"]
  from t1 e have k1: "collect_similar ''a'' ([(doc_a, 0)] @ (doc_b, 1) # [(doc_c, 1.001)])
       = collect_similar ''a'' [(doc_a, 0)] @ make_candidate doc_b MIN_SIMILARITY_THRESHOLD
           # collect_similar ''a'' [(doc_c, 1.001)]" by blast
  from t2 l have k2: "collect_similar ''a'' ([(doc_a, 0), (doc_b, 1)] @ (doc_c, 1.001) # [])
       = collect_similar ''a'' [(doc_a, 0), (doc_b, 1)] @ collect_similar ''a'' []" by blast
  from t3 g have k4: "collect_similar ''a'' ([(doc_a, 0)] @ (doc_b, 0.8) # [(doc_c, 1.001)])
       = collect_similar ''a'' [(doc_a, 0)] @ make_candidate doc_b (similarity_of_score 0.8)
           # collect_similar ''a'' [(doc_c, 1.001)]" by blast
  have n: "int (length (filter (\<lambda>(doc', d'). metadata doc' ''url'' \<noteq> Some ''a''
                      \<and> MIN_SIMILARITY_THRESHOLD \<le> similarity_of_score d')
              [(doc_a, 0), (doc_b, 1), (doc_c, 1.001)])) \<le> 2"
    by (simp add: doc_a_def doc_b_def doc_c_def similarity_of_score_def MIN_SIMILARITY_THRESHOLD_def)
  note m0 = t1 [THEN conjunct2, THEN conjunct2, THEN conjunct2, THEN conjunct2, THEN conjunct1,
      rule_format, of "[doc_a, doc_b, doc_c]" "''text of A''" 2
        "[(doc_a, 0), (doc_b, 1), (doc_c, 1.001)]"]
  have k0: "make_candidate doc_b (similarity_of_score 1)
       \<in> set (map (\<lambda>c. c\<lparr>rank := None\<rparr>) (find_similar_posts boundary_library scenario_manager ''a'' (Some 2)))"
    using h n by (intro m0) simp
  note m1 = t1 [THEN conjunct2, THEN conjunct2, THEN conjunct2, THEN conjunct2, THEN conjunct2,
      rule_format, of "[doc_a, doc_b, doc_c]" "''text of A''" 2
        "[(doc_a, 0), (doc_b, 1), (doc_c, 1.001)]"]
  have k3: "make_candidate doc_b (similarity_of_score 1)
       \<in> set (map (\<lambda>c. c\<lparr>rank := None\<rparr>) (find_similar_posts boundary_library scenario_manager ''a'' (Some 2)))"
    using h by (intro m1) simp
  from ub uc e g l v n k0 k1 k2 k3 k4 show ?thesis by blast
qed

section \<open>Repeated queries\<close>

text \<open>
  C6, as the code has it. No method of the searcher writes: a session leaves the manager
  and its store as they were, and every call of \<^verbatim>\<open>find_similar_posts\<close> in it computes from
  the same store. Two such calls for the same url and count return the same list
  whenever the library gives both the same answer. The library is asked again at every
  call, and a call during which it raises returns the empty list.
\<close>

theorem find_similar_posts_repeatable:
  "snd (run m steps) = m
   \<and> length (fst (run m steps)) = length steps
   \<and> (\<forall>i lib. i < length steps \<and> steps ! i = (lib, FindSimilarPosts q k_opt)
         \<longrightarrow> fst (run m steps) ! i = Posts (find_similar_posts lib m q k_opt))
   \<and> (\<forall>i j lib lib'. i < length steps \<and> j < length steps
         \<and> steps ! i = (lib, FindSimilarPosts q k_opt)
         \<and> steps ! j = (lib', FindSimilarPosts q k_opt)
         \<and> same_answer lib lib' m q k_opt
         \<longrightarrow> fst (run m steps) ! i = fst (run m steps) ! j)
   \<and> (\<forall>lib store t e. vectorstore m = Some store
         \<and> find_query_doc q (paired_docs (chroma_get store)) = Some t
         \<and> similarity_search_with_score lib store t (top_k_or_default k_opt + 1) = Inl e
         \<longrightarrow> find_similar_posts lib m q k_opt = [])"
proof -
  have a: "fst (run m steps) ! i = Posts (find_similar_posts lib m q k_opt)"
    if "i < length steps \<and> steps ! i = (lib, FindSimilarPosts q k_opt)" for i lib
    using that run_nth [of i steps lib "FindSimilarPosts q k_opt" m] by simp
  have b: "fst (run m steps) ! i = fst (run m steps) ! j"
    if h: "i < length steps \<and> j < length steps
         \<and> steps ! i = (lib, FindSimilarPosts q k_opt)
         \<and> steps ! j = (lib', FindSimilarPosts q k_opt)
         \<and> same_answer lib lib' m q k_opt" for i j lib lib'
  proof -
    from h have "find_similar_posts lib m q k_opt = find_similar_posts lib' m q k_opt"
      by (intro same_answer_find_similar_posts) simp
    with h a [of i lib] a [of j lib'] show ?thesis by simp
  qed
  have c: "find_similar_posts lib m q k_opt = []"
    if "vectorstore m = Some store
         \<and> find_query_doc q (paired_docs (chroma_get store)) = Some t
         \<and> similarity_search_with_score lib store t (top_k_or_default k_opt + 1) = Inl e"
    for lib store t e
    using that
    by (auto simp: find_similar_posts_def search_similar_def Let_def split: py_exception.splits)
  have d: "snd (run m steps) = m" by (rule run_keeps_manager)
  have e: "length (fst (run m steps)) = length steps" by (rule length_run)
  from a b c d e show ?thesis by blast
qed

theorem find_similar_posts_repeatable_witness:
  "same_answer scenario_library scenario_library scenario_manager ''a'' (Some 2)
   \<and> run scenario_manager
        [(scenario_library, FindSimilarPosts ''a'' (Some 2)),
         (scenario_library, ValidateUrl ''b''),
         (scenario_library, FindSimilarPosts ''a'' (Some 2))]
       = ([Posts [\<lparr>url = Some ''b'', title = Some ''B'', content = ''text of B'',
                    similarity = 0.6, rank = Some 1\<rparr>],
           Valid True,
           Posts [\<lparr>url = Some ''b'', title = Some ''B'', content = ''text of B'',
                    similarity = 0.6, rank = Some 1\<rparr>]],
          scenario_manager)
   \<and> find_similar_posts failing_library scenario_manager ''a'' (Some 2) = []"
proof -
  let ?steps = "[(scenario_library, FindSimilarPosts ''a'' (Some 2)),
         (scenario_library, ValidateUrl ''b''),
         (scenario_library, FindSimilarPosts ''a'' (Some 2))]"
  let ?B = "[\<lparr>url = Some ''b'', title = Some ''B'', content = ''text of B'',
                    similarity = 0.6, rank = Some 1\<rparr>]"
  note t = find_similar_posts_repeatable [of scenario_manager ?steps "''a''" "Some 2"]
  have sa: "same_answer scenario_library scenario_library scenario_manager ''a'' (Some 2)"
    by (simp add: same_answer_def split: option.splits)
  have v: "find_similar_posts scenario_library scenario_manager ''a'' (Some 2) = ?B"
    by (simp add: find_similar_posts_def search_similar_def scenario_library_def scenario_manager_def
        top_k_or_default_def chroma_get_def paired_docs_def doc_a_def doc_b_def doc_c_def
        similarity_of_score_def MIN_SIMILARITY_THRESHOLD_def make_candidate_def
        py_sort_reverse_def py_slice_to_def add_ranking_def)
  have u: "validate_url scenario_manager ''b''"
    by (simp add: validate_url_def vectorstore_get_def chroma_get_def scenario_manager_def
          doc_a_def doc_b_def doc_c_def)
  from t have m: "snd (run scenario_manager ?steps) = scenario_manager" by blast
  from t have r0: "fst (run scenario_manager ?steps) ! 0
      = Posts (find_similar_posts scenario_library scenario_manager ''a'' (Some 2))"
    by simp
  from t sa have r2: "fst (run scenario_manager ?steps) ! 0 = fst (run scenario_manager ?steps) ! 2"
    by simp
  have r1: "fst (run scenario_manager ?steps) ! 1 = Valid True"
    using u by (simp add: run_Cons)
  from t have len: "length (fst (run scenario_manager ?steps)) = 3" by simp
  have rs: "fst (run scenario_manager ?steps) = [Posts ?B, Valid True, Posts ?B]"
    using len r0 r1 r2 v
    by (auto simp: list_eq_iff_nth_eq nth_Cons split: nat.splits)
  have f: "find_similar_posts failing_library scenario_manager ''a'' (Some 2) = []"
  proof -
    have "vectorstore scenario_manager = Some [doc_a, doc_b, doc_c]
         \<and> find_query_doc ''a'' (paired_docs (chroma_get [doc_a, doc_b, doc_c])) = Some ''text of A''
         \<and> similarity_search_with_score failing_library [doc_a, doc_b, doc_c] ''text of A''
               (top_k_or_default (Some 2) + 1) = Inl (OtherException ''embedding provider unavailable'')"
      by (simp add: scenario_manager_def failing_library_def chroma_get_def paired_docs_def doc_a_def)
    with t show ?thesis by blast
  qed
  from sa rs m f show ?thesis
    by (simp add: prod_eq_iff)
qed

text \<open>
  C6 as stated does not hold: in a session of two calls for the url \<^verbatim>\<open>a\<close> on the store of
  three posts, with no write between them, the provider answers the first call and not the
  second; the first call returns B and the second the empty list.
\<close>

theorem repeated_query_counterexample:
  "run scenario_manager
       [(scenario_library, FindSimilarPosts ''a'' (Some 2)),
        (failing_library, FindSimilarPosts ''a'' (Some 2))]
     = ([Posts [\<lparr>url = Some ''b'', title = Some ''B'', content = ''text of B'',
                  similarity = 0.6, rank = Some 1\<rparr>],
         Posts []],
        scenario_manager)"
  by (simp add: find_similar_posts_def search_similar_def scenario_library_def failing_library_def
        scenario_manager_def top_k_or_default_def chroma_get_def paired_docs_def
        doc_a_def doc_b_def doc_c_def similarity_of_score_def MIN_SIMILARITY_THRESHOLD_def
        make_candidate_def py_sort_reverse_def py_slice_to_def add_ranking_def)

section \<open>The scenario of three posts\<close>

text \<open>
  C7, as the code has it. With distances 0.2, 0.8 and 1.4 for A, B and C, threshold 0.5 and
  \<open>k = 2\<close>, the query for \<^verbatim>\<open>a\<close> returns the single entry B with rank 1, and B's similarity is
  \<open>1 - 0.8 / 2 = 0.6\<close>. C is left out: its similarity 0.3 is below 0.5.
\<close>

theorem scenario_abc:
  "find_similar_posts scenario_library scenario_manager ''a'' (Some 2)
     = [\<lparr>url = Some ''b'', title = Some ''B'', content = ''text of B'',
         similarity = 0.6, rank = Some 1\<rparr>]
   \<and> similarity_of_score 0.8 = 0.6
   \<and> similarity_of_score 1.4 = 0.3
   \<and> similarity_of_score 1.4 < MIN_SIMILARITY_THRESHOLD
   \<and> length (find_similar_posts scenario_library scenario_manager ''a'' (Some 2)) = 1"
  by (simp add: find_similar_posts_def search_similar_def scenario_library_def scenario_manager_def
        top_k_or_default_def chroma_get_def paired_docs_def doc_a_def doc_b_def doc_c_def
        similarity_of_score_def MIN_SIMILARITY_THRESHOLD_def make_candidate_def
        py_sort_reverse_def py_slice_to_def add_ranking_def)

text \<open>
  C7 as stated gives B the similarity 0.9, which the code does not return.
\<close>

theorem scenario_abc_counterexample:
  "find_similar_posts scenario_library scenario_manager ''a'' (Some 2)
     \<noteq> [\<lparr>url = Some ''b'', title = Some ''B'', content = ''text of B'',
          similarity = 0.9, rank = Some 1\<rparr>]"
  by (simp add: find_similar_posts_def search_similar_def scenario_library_def scenario_manager_def
        top_k_or_default_def chroma_get_def paired_docs_def doc_a_def doc_b_def doc_c_def
        similarity_of_score_def MIN_SIMILARITY_THRESHOLD_def make_candidate_def
        py_sort_reverse_def py_slice_to_def add_ranking_def)

section \<open>Context of a post\<close>

text \<open>
  C8. For a stored url and a count \<open>max_chars\<close> (\<open>0 \<le> max_chars\<close>), \<^verbatim>\<open>get_post_context\<close> returns
  the text of the first record with that url, unchanged when it has at most \<open>max_chars\<close>
  characters, and otherwise its first \<open>max_chars\<close> characters followed by the marker
  \<^verbatim>\<open>...\<close>. For a url that no record carries it returns \<^verbatim>\<open>None\<close>. The call leaves the manager
  as it was.
\<close>

theorem get_post_context_truncates:
  "(vectorstore m = Some (pre @ d # post)
      \<and> Some u \<notin> set (map (\<lambda>x. metadata x ''url'') pre) \<and> metadata d ''url'' = Some u
      \<and> 0 \<le> max_chars
     \<longrightarrow> (int (length (page_content d)) \<le> max_chars
            \<longrightarrow> get_post_context m u max_chars = Some (page_content d))
        \<and> (max_chars < int (length (page_content d))
            \<longrightarrow> get_post_context m u max_chars
                  = Some (take (nat max_chars) (page_content d) @ ''...'')))
   \<and> (vectorstore m = Some store \<and> Some u \<notin> set (map (\<lambda>x. metadata x ''url'') store)
        \<longrightarrow> get_post_context m u max_chars = None)
   \<and> exec lib m (GetPostContext u max_chars) = (Context (get_post_context m u max_chars), m)"
proof (intro conjI impI)
  assume h: "vectorstore m = Some (pre @ d # post)
      \<and> Some u \<notin> set (map (\<lambda>x. metadata x ''url'') pre) \<and> metadata d ''url'' = Some u
      \<and> 0 \<le> max_chars"
  then have g: "get_post_context m u max_chars
      = Some (if int (length (page_content d)) > max_chars
              then take (nat max_chars) (page_content d) @ ''...'' else page_content d)"
    by (simp add: get_post_context_def vectorstore_get_def scan_context_first py_slice_to_nonneg)
  {
    assume "int (length (page_content d)) \<le> max_chars"
    with g show "get_post_context m u max_chars = Some (page_content d)" by simp
  }
  {
    assume "max_chars < int (length (page_content d))"
    with g show "get_post_context m u max_chars
                  = Some (take (nat max_chars) (page_content d) @ ''...'')" by simp
  }
next
  assume "vectorstore m = Some store \<and> Some u \<notin> set (map (\<lambda>x. metadata x ''url'') store)"
  then show "get_post_context m u max_chars = None"
    by (simp add: get_post_context_def vectorstore_get_def scan_context_absent)
next
  show "exec lib m (GetPostContext u max_chars) = (Context (get_post_context m u max_chars), m)"
    by simp
qed

theorem get_post_context_truncates_witness:
  "vectorstore scenario_manager = Some ([doc_a] @ doc_b # [doc_c])
   \<and> Some ''b'' \<notin> set (map (\<lambda>x. metadata x ''url'') [doc_a]) \<and> metadata doc_b ''url'' = Some ''b''
   \<and> int (length (page_content doc_b)) \<le> 9
   \<and> get_post_context scenario_manager ''b'' 9 = Some ''text of B''
   \<and> (4::int) < int (length (page_content doc_b))
   \<and> get_post_context scenario_manager ''b'' 4 = Some ''text...''
   \<and> Some ''x'' \<notin> set (map (\<lambda>x. metadata x ''url'') [doc_a, doc_b, doc_c])
   \<and> get_post_context scenario_manager ''x'' 4 = None"
proof -
  have s: "vectorstore scenario_manager = Some ([doc_a] @ doc_b # [doc_c])"
    by (simp add: scenario_manager_def)
  have s': "vectorstore scenario_manager = Some [doc_a, doc_b, doc_c]"
    by (simp add: scenario_manager_def)
  have p: "Some ''b'' \<notin> set (map (\<lambda>x. metadata x ''url'') [doc_a])"
    by (simp add: doc_a_def)
  have b: "metadata doc_b ''url'' = Some ''b''"
    by (simp add: doc_b_def)
  have c: "page_content doc_b = ''text of B''"
    by (simp add: doc_b_def)
  have x: "Some ''x'' \<notin> set (map (\<lambda>x. metadata x ''url'') [doc_a, doc_b, doc_c])"
    by (simp add: doc_a_def doc_b_def doc_c_def)
  note t9 = get_post_context_truncates [of scenario_manager "[doc_a]" doc_b "[doc_c]" "''b''" 9]
  note t4 = get_post_context_truncates [of scenario_manager "[doc_a]" doc_b "[doc_c]" "''b''" 4]
  note tx = get_post_context_truncates [of scenario_manager _ _ _ "''x''" 4 "[doc_a, doc_b, doc_c]"]
  from t9 s p b c have r9: "get_post_context scenario_manager ''b'' 9 = Some ''text of B''"
    by simp
  from t4 s p b c have r4: "get_post_context scenario_manager ''b'' 4 = Some ''text...''"
    by simp
  from tx s' x have rx: "get_post_context scenario_manager ''x'' 4 = None"
    by blast
  from s p b c x r9 r4 rx show ?thesis by simp
qed

section \<open>A stored post with an empty text\<close>

text \<open>
  C9. When the first record with the query url has the empty string as its text,
  \<^verbatim>\<open>search_similar\<close> raises the error \<^verbatim>\<open>URL not found in database\<close>, because the check
  \<^verbatim>\<open>if not query_doc\<close> tests the text; \<^verbatim>\<open>validate_url\<close> answers True for the same url.
\<close>

theorem empty_text_reported_not_found:
  assumes "vectorstore m = Some (pre @ d # post)"
    and "Some q \<notin> set (map (\<lambda>x. metadata x ''url'') pre)"
    and "metadata d ''url'' = Some q"
    and "page_content d = []"
    and "chroma_bool lib (pre @ d # post)"
  shows "search_similar lib m q k_opt = Inl (ValueError (''URL not found in database: '' @ q))
         \<and> validate_url m q = True"
proof -
  have "find_query_doc q (paired_docs (chroma_get (pre @ d # post))) = Some []"
    using find_query_doc_first [OF assms(2,3)] assms(4) by simp
  then have a: "search_similar lib m q k_opt = Inl (ValueError (''URL not found in database: '' @ q))"
    using assms(1,5) by (simp add: search_similar_def Let_def)
  have "validate_url m q"
    using assms(1,3) by (simp add: validate_url_def vectorstore_get_def scan_url_iff chroma_get_def)
  with a show ?thesis by simp
qed

theorem empty_text_reported_not_found_witness:
  "search_similar scenario_library \<lparr>vectorstore = Some [doc_a, doc_empty, doc_b]\<rparr> ''e'' (Some 5)
     = Inl (ValueError ''URL not found in database: e'')
   \<and> validate_url \<lparr>vectorstore = Some [doc_a, doc_empty, doc_b]\<rparr> ''e'' = True"
  using empty_text_reported_not_found [of "\<lparr>vectorstore = Some [doc_a, doc_empty, doc_b]\<rparr>"
      "[doc_a]" doc_empty "[doc_b]" "''e''" scenario_library "Some 5"]
  by (simp add: doc_a_def doc_empty_def scenario_library_def)

section \<open>Stores without a vectorstore\<close>

text \<open>
  C10. On a manager whose vectorstore was never loaded, \<^verbatim>\<open>validate_url\<close> answers False for
  every url and \<^verbatim>\<open>get_all_urls\<close> answers the empty list: the AttributeError of
  \<^verbatim>\<open>None.get()\<close> is caught by the \<^verbatim>\<open>except Exception\<close> clause of both methods.
\<close>

theorem uninitialized_membership_and_listing:
  assumes "vectorstore m = None"
  shows "vectorstore_get m = Inl (AttributeError ''NoneType object has no attribute get'')
         \<and> validate_url m u = False \<and> get_all_urls m = []"
  using assms by (simp add: vectorstore_get_def validate_url_def get_all_urls_def)

theorem uninitialized_membership_and_listing_witness:
  "vectorstore \<lparr>vectorstore = None\<rparr> = None
   \<and> validate_url \<lparr>vectorstore = None\<rparr> ''https://example.com/post'' = False
   \<and> get_all_urls \<lparr>vectorstore = None\<rparr> = []"
  using uninitialized_membership_and_listing [of "\<lparr>vectorstore = None\<rparr>" "''https://example.com/post''"]
  by simp

end
